theory Spec2Isabelle
  imports Complex_Main
begin

section \<open>Python values, exceptions and the library interface\<close>

text \<open>
  The program is a script over pandas. A cell of a table that \<^verbatim>\<open>pd.read_csv\<close> returns is a
  Python \<^verbatim>\<open>str\<close> or a number; a blank field is the float NaN (the doctests of the source
  print it as \<^verbatim>\<open>NaN\<close>). The numbers are numpy scalars: their type \<open>'n\<close> is left abstract,
  with NaN one of its values, and the operations the program uses on them are fields of
  the library interface below.
\<close>

datatype 'n cell = Str string | Num 'n

text \<open>The exceptions the program can meet.\<close>

datatype py_error =
    KeyError | ValueError | TypeError | IndexError
  | ReError | InvalidIndexError | EmptyDataError | ParserError | SystemExit

text \<open>
  The library functions whose results the program depends on and whose code is not
  in the repository:
  \<^item> \<open>np_nan\<close>, \<open>np_isnan\<close>: the float NaN and the test for it;
  \<^item> \<open>np_zero\<close>: the number \<open>0\<close> that \<^verbatim>\<open>fillna(0)\<close> writes;
  \<^item> \<open>np_add\<close>: \<^verbatim>\<open>+\<close> on two numbers;
  \<^item> \<open>np_parse\<close>: what \<^verbatim>\<open>pd.to_numeric\<close> makes of one string, \<open>None\<close> when it raises
    ValueError;
  \<^item> \<open>re_compile\<close>: \<^verbatim>\<open>re.compile(pattern, flags)\<close>, \<open>None\<close> when the pattern is malformed
    (re.error); a compiled pattern is the predicate "\<^verbatim>\<open>.search(string)\<close> finds a match";
  \<^item> \<open>strptime\<close>: whether \<^verbatim>\<open>datetime.strptime(string, format)\<close> returns (True) or raises
    ValueError (False), on a \<^verbatim>\<open>str\<close>.
\<close>

record 'n pylib =
  np_nan :: 'n
  np_isnan :: "'n \<Rightarrow> bool"
  np_zero :: 'n
  np_add :: "'n \<Rightarrow> 'n \<Rightarrow> 'n"
  np_parse :: "string \<Rightarrow> 'n option"
  re_compile :: "string \<Rightarrow> nat \<Rightarrow> (string \<Rightarrow> bool) option"
  strptime :: "string \<Rightarrow> string \<Rightarrow> bool"

text \<open>\<^verbatim>\<open>re.IGNORECASE\<close> is the flag bit 2.\<close>

definition IGNORECASE :: nat where
  "IGNORECASE = 2"

text \<open>
  \<^verbatim>\<open>re.search(pattern, string, flags)\<close> on cells: the pattern is compiled first (TypeError
  unless it is a \<^verbatim>\<open>str\<close>, re.error when malformed), then searched for in the string
  (TypeError unless that is a \<^verbatim>\<open>str\<close>). The result is the truth value of the match object.
\<close>

definition re_search ::
  "(string \<Rightarrow> nat \<Rightarrow> (string \<Rightarrow> bool) option) \<Rightarrow> 'n cell \<Rightarrow> 'n cell \<Rightarrow> nat \<Rightarrow> py_error + bool" where
  "re_search re pattern string flags =
     (case pattern of
        Num _ \<Rightarrow> Inl TypeError
      | Str p \<Rightarrow>
          (case re p flags of
             None \<Rightarrow> Inl ReError
           | Some compiled \<Rightarrow>
               (case string of
                  Num _ \<Rightarrow> Inl TypeError
                | Str s \<Rightarrow> Inr (compiled s))))"

section \<open>The categorizer: \<^verbatim>\<open>lookup\<close>\<close>

text \<open>
  A row of the rule table, as \<^verbatim>\<open>lookups.itertuples(index=False)\<close> yields it: the fields
  \<^verbatim>\<open>row.regex\<close> and \<^verbatim>\<open>row.category\<close>.
\<close>

record 'n rule =
  regex :: "'n cell"
  category :: "'n cell"

text \<open>
  \<^verbatim>\<open>
  for row in lookups.itertuples(index=False):
      if re.search(row.regex, description, re.IGNORECASE):
          return row.category
  return "unknown"
  \<close>
\<close>

fun lookup ::
  "(string \<Rightarrow> nat \<Rightarrow> (string \<Rightarrow> bool) option) \<Rightarrow> 'n cell \<Rightarrow> 'n rule list \<Rightarrow> py_error + 'n cell" where
  "lookup re description [] = Inr (Str ''unknown'')"
| "lookup re description (row # lookups) =
     (case re_search re (regex row) description IGNORECASE of
        Inl e \<Rightarrow> Inl e
      | Inr found \<Rightarrow>
          (if found then Inr (category row) else lookup re description lookups))"

section \<open>A model of the pandas operations the program uses\<close>

text \<open>
  A \<^verbatim>\<open>DataFrame\<close> has row labels (\<open>index\<close>), column labels (\<open>columns\<close>) and its cells,
  kept here row by row. Every row has one cell per column (\<open>rectangular\<close>); the cell of a
  row under a label is found by pairing the row with \<open>columns\<close>. A column label is a
  position (\<^verbatim>\<open>read_csv(header=None)\<close> numbers the columns \<open>0, 1, \<dots>\<close>) or a value taken from
  a cell (\<^verbatim>\<open>df.columns = df.iloc[0]\<close>) or a string of the program. Labels may repeat.
\<close>

datatype 'n label = Pos nat | Lab "'n cell"

abbreviation Col :: "string \<Rightarrow> 'n label" where
  "Col s \<equiv> Lab (Str s)"

record 'n dataframe =
  index :: "nat list"
  columns :: "'n label list"
  rows :: "'n cell list list"


text \<open>
  \<^verbatim>\<open>pd.read_csv(file, header=None)\<close>, from the records of the file as pandas has parsed and
  typed them (\<open>table\<close>: a field is a \<^verbatim>\<open>str\<close>, a number when its whole column is numeric, NaN
  when blank). A file with no record raises EmptyDataError. The first record sets the
  number of columns: a shorter record is padded with NaN, a longer one raises ParserError.
  Rows and columns are numbered from 0.
\<close>

definition read_csv :: "'n pylib \<Rightarrow> 'n cell list list \<Rightarrow> py_error + 'n dataframe" where
  "read_csv lib table =
     (case table of
        [] \<Rightarrow> Inl EmptyDataError
      | [] # _ \<Rightarrow> Inl EmptyDataError
      | (c # cs) # _ \<Rightarrow>
          let n = length (c # cs) in
          if list_all (\<lambda>r. length r \<le> n) table
          then Inr \<lparr>index = [0..<length table],
                    columns = map Pos [0..<n],
                    rows = map (\<lambda>r. r @ replicate (n - length r) (Num (np_nan lib))) table\<rparr>
          else Inl ParserError)"

text \<open>The cells of one row under the label \<open>k\<close> (one for each column so labelled).\<close>

definition pick :: "'n label \<Rightarrow> 'n label list \<Rightarrow> 'n cell list \<Rightarrow> 'n cell list" where
  "pick k ls r = map snd (filter (\<lambda>(l, c). l = k) (zip ls r))"

text \<open>
  \<^verbatim>\<open>df[0][0]\<close>: the cell in the column labelled 0 of the row labelled 0; KeyError when
  there is none.
\<close>

definition cell00 :: "'n dataframe \<Rightarrow> py_error + 'n cell" where
  "cell00 df =
     (case concat (map (\<lambda>(i, r). if i = 0 then pick (Pos 0) (columns df) r else [])
                       (zip (index df) (rows df))) of
        [] \<Rightarrow> Inl KeyError
      | c # _ \<Rightarrow> Inr c)"

text \<open>\<^verbatim>\<open>df.iloc[0]\<close>: the first row; IndexError on a frame without rows.\<close>

definition iloc0 :: "'n dataframe \<Rightarrow> py_error + 'n cell list" where
  "iloc0 df = (case rows df of [] \<Rightarrow> Inl IndexError | r # _ \<Rightarrow> Inr r)"

text \<open>\<^verbatim>\<open>df.columns = labels\<close>: ValueError (length mismatch) unless there is one label per column.\<close>

definition set_columns :: "'n dataframe \<Rightarrow> 'n label list \<Rightarrow> py_error + 'n dataframe" where
  "set_columns df labels =
     (if length labels = length (columns df) then Inr (df\<lparr>columns := labels\<rparr>)
      else Inl ValueError)"

text \<open>\<^verbatim>\<open>df[1:]\<close>: all rows but the first, with their labels.\<close>

definition tail_rows :: "'n dataframe \<Rightarrow> 'n dataframe" where
  "tail_rows df = df\<lparr>index := drop 1 (index df), rows := drop 1 (rows df)\<rparr>"

text \<open>
  \<^verbatim>\<open>df[k]\<close>: KeyError when no column is labelled \<open>k\<close>, the column as a \<^verbatim>\<open>Series\<close> when one is,
  and a \<^verbatim>\<open>DataFrame\<close> of the columns so labelled when several are. The program only asks
  whether the result is a \<^verbatim>\<open>Series\<close>, so the frame's contents are not kept.
\<close>

datatype 'n item = Series "'n cell list" | SubFrame

definition getitem :: "'n dataframe \<Rightarrow> 'n label \<Rightarrow> py_error + 'n item" where
  "getitem df k =
     (let n = count_list (columns df) k in
      if n = 0 then Inl KeyError
      else if n = 1 then Inr (Series (concat (map (pick k (columns df)) (rows df))))
      else Inr SubFrame)"

text \<open>
  \<^verbatim>\<open>df[k] = series\<close>, for a series with the frame's own row labels (every assignment of the
  program is one): the values replace every column labelled \<open>k\<close>, or become a new last
  column when there is none.
\<close>

definition setitem :: "'n dataframe \<Rightarrow> 'n label \<Rightarrow> 'n cell list \<Rightarrow> 'n dataframe" where
  "setitem df k vs =
     (if k \<in> set (columns df)
      then df\<lparr>rows := map (\<lambda>(r, v). map (\<lambda>(l, c). if l = k then v else c) (zip (columns df) r))
                             (zip (rows df) vs)\<rparr>
      else df\<lparr>columns := columns df @ [k],
              rows := map (\<lambda>(r, v). r @ [v]) (zip (rows df) vs)\<rparr>)"

text \<open>Applying a function that may raise to the elements in order: the first exception ends it.\<close>

fun map_raise :: "('a \<Rightarrow> py_error + 'b) \<Rightarrow> 'a list \<Rightarrow> py_error + 'b list" where
  "map_raise f [] = Inr []"
| "map_raise f (x # xs) =
     (case f x of
        Inl e \<Rightarrow> Inl e
      | Inr y \<Rightarrow> (case map_raise f xs of Inl e \<Rightarrow> Inl e | Inr ys \<Rightarrow> Inr (y # ys)))"

text \<open>
  \<^verbatim>\<open>pd.to_numeric(x)\<close>: TypeError on a \<^verbatim>\<open>DataFrame\<close>; on a \<^verbatim>\<open>Series\<close> every string is parsed
  (ValueError at the first that does not parse) and every number, NaN included, is kept.
\<close>

definition to_numeric1 :: "'n pylib \<Rightarrow> 'n cell \<Rightarrow> py_error + 'n cell" where
  "to_numeric1 lib c =
     (case c of
        Num x \<Rightarrow> Inr (Num x)
      | Str s \<Rightarrow> (case np_parse lib s of None \<Rightarrow> Inl ValueError | Some x \<Rightarrow> Inr (Num x)))"

definition to_numeric :: "'n pylib \<Rightarrow> 'n item \<Rightarrow> py_error + 'n cell list" where
  "to_numeric lib x =
     (case x of SubFrame \<Rightarrow> Inl TypeError | Series cs \<Rightarrow> map_raise (to_numeric1 lib) cs)"

text \<open>\<^verbatim>\<open>df.fillna(v, inplace=True)\<close>: every NaN of the frame, in whatever column, becomes \<open>v\<close>.\<close>

definition fillna1 :: "'n pylib \<Rightarrow> 'n \<Rightarrow> 'n cell \<Rightarrow> 'n cell" where
  "fillna1 lib v c = (case c of Str s \<Rightarrow> Str s | Num x \<Rightarrow> if np_isnan lib x then Num v else Num x)"

definition fillna :: "'n pylib \<Rightarrow> 'n \<Rightarrow> 'n dataframe \<Rightarrow> 'n dataframe" where
  "fillna lib v df = df\<lparr>rows := map (map (fillna1 lib v)) (rows df)\<rparr>"

text \<open>
  \<^verbatim>\<open>a + b\<close> on two items of one frame: element by element on two \<^verbatim>\<open>Series\<close>. Python adds two
  numbers, concatenates two strings and raises TypeError on a number and a string. The
  program adds two columns that \<^verbatim>\<open>to_numeric\<close> has produced, so the case of a \<^verbatim>\<open>DataFrame\<close>
  operand does not arise; it is given as TypeError.
\<close>

definition add1 :: "'n pylib \<Rightarrow> 'n cell \<times> 'n cell \<Rightarrow> py_error + 'n cell" where
  "add1 lib ab =
     (case ab of
        (Num x, Num y) \<Rightarrow> Inr (Num (np_add lib x y))
      | (Str s, Str t) \<Rightarrow> Inr (Str (s @ t))
      | _ \<Rightarrow> Inl TypeError)"

definition add_items :: "'n pylib \<Rightarrow> 'n item \<Rightarrow> 'n item \<Rightarrow> py_error + 'n cell list" where
  "add_items lib a b =
     (case (a, b) of
        (Series xs, Series ys) \<Rightarrow> map_raise (add1 lib) (zip xs ys)
      | _ \<Rightarrow> Inl TypeError)"

text \<open>
  \<^verbatim>\<open>df.drop(columns=ks, inplace=True)\<close>: KeyError unless every label of \<open>ks\<close> is a column;
  every column with one of these labels goes.
\<close>

definition drop_columns :: "'n dataframe \<Rightarrow> 'n label list \<Rightarrow> py_error + 'n dataframe" where
  "drop_columns df ks =
     (if list_all (\<lambda>k. k \<in> set (columns df)) ks
      then Inr (df\<lparr>columns := filter (\<lambda>l. l \<notin> set ks) (columns df),
                   rows := map (\<lambda>r. map snd (filter (\<lambda>(l, c). l \<notin> set ks) (zip (columns df) r)))
                               (rows df)\<rparr>)
      else Inl KeyError)"

text \<open>
  \<^verbatim>\<open>df[ks]\<close> for a list of labels: KeyError unless every label is a column; the result
  has, for each label of \<open>ks\<close> in turn, the columns so labelled.
\<close>

definition select :: "'n dataframe \<Rightarrow> 'n label list \<Rightarrow> py_error + 'n dataframe" where
  "select df ks =
     (if list_all (\<lambda>k. k \<in> set (columns df)) ks
      then Inr (df\<lparr>columns := concat (map (\<lambda>k. filter (\<lambda>l. l = k) (columns df)) ks),
                   rows := map (\<lambda>r. concat (map (\<lambda>k. pick k (columns df) r) ks)) (rows df)\<rparr>)
      else Inl KeyError)"

text \<open>\<^verbatim>\<open>df.rename(columns={old: new}, inplace=True)\<close>: no error when \<open>old\<close> is not a column.\<close>

definition rename :: "'n dataframe \<Rightarrow> 'n label \<Rightarrow> 'n label \<Rightarrow> 'n dataframe" where
  "rename df old new = df\<lparr>columns := map (\<lambda>l. if l = old then new else l) (columns df)\<rparr>"

text \<open>
  \<^verbatim>\<open>pd.concat(dfs)\<close>: ValueError on an empty list. Frames with the same list of labels are
  stacked as they are. Otherwise the columns are aligned by label: the result has the
  labels of all frames in the order of their first appearance, each frame's cells are
  moved under them, and a column a frame lacks is NaN there. pandas can only align frames
  whose labels do not repeat (InvalidIndexError). The row labels are kept.
\<close>

fun unique :: "'a list \<Rightarrow> 'a list" where
  "unique [] = []"
| "unique (x # xs) = x # unique (removeAll x xs)"

definition reindex :: "'n pylib \<Rightarrow> 'n label list \<Rightarrow> 'n dataframe \<Rightarrow> 'n cell list list" where
  "reindex lib ls df =
     map (\<lambda>r. map (\<lambda>k. case pick k (columns df) r of [] \<Rightarrow> Num (np_nan lib) | c # _ \<Rightarrow> c) ls)
         (rows df)"

definition pd_concat :: "'n pylib \<Rightarrow> 'n dataframe list \<Rightarrow> py_error + 'n dataframe" where
  "pd_concat lib dfs =
     (case dfs of
        [] \<Rightarrow> Inl ValueError
      | df # _ \<Rightarrow>
          if list_all (\<lambda>d. columns d = columns df) dfs
          then Inr \<lparr>index = concat (map index dfs),
                    columns = columns df,
                    rows = concat (map rows dfs)\<rparr>
          else if list_all (\<lambda>d. distinct (columns d)) dfs
          then (let ls = unique (concat (map columns dfs)) in
                Inr \<lparr>index = concat (map index dfs),
                     columns = ls,
                     rows = concat (map (reindex lib ls) dfs)\<rparr>)
          else Inl InvalidIndexError)"

text \<open>
  \<^verbatim>\<open>df.to_csv(path, index=False)\<close>: the file holds the column labels and then the rows, without
  the row labels.
\<close>

record 'n csv =
  header :: "'n label list"
  body :: "'n cell list list"

definition to_csv :: "'n dataframe \<Rightarrow> 'n csv" where
  "to_csv df = \<lparr>header = columns df, body = rows df\<rparr>"

section \<open>The format normalizers\<close>

text \<open>
  Statements run in sequence: when one raises, the rest is skipped and the exception is
  the result.
\<close>

definition and_then :: "py_error + 'a \<Rightarrow> ('a \<Rightarrow> py_error + 'b) \<Rightarrow> py_error + 'b" where
  "and_then m f = (case m of Inl e \<Rightarrow> Inl e | Inr x \<Rightarrow> f x)"

text \<open>
  \<^verbatim>\<open>
  df = dataframe.copy()
  df.columns = df.iloc[0]
  df = df[1:]
  df["Debit"] = pd.to_numeric(df["Debit"])
  df["Credit"] = pd.to_numeric(df["Credit"])
  df.fillna(0, inplace=True)
  df["Amount"] = df["Credit"] + df["Debit"]
  df.drop(columns=["Status", "Member Name", "Debit", "Credit"], inplace=True)
  df = df[["Date", "Amount", "Description"]]
  return df
  \<close>
\<close>

definition normalize_citi :: "'n pylib \<Rightarrow> 'n dataframe \<Rightarrow> py_error + 'n dataframe" where
  "normalize_citi lib dataframe =
     (let df = dataframe in
      and_then (iloc0 df) (\<lambda>row0.
      and_then (set_columns df (map Lab row0)) (\<lambda>df.
      let df = tail_rows df in
      and_then (getitem df (Col ''Debit'')) (\<lambda>debit.
      and_then (to_numeric lib debit) (\<lambda>debit.
      let df = setitem df (Col ''Debit'') debit in
      and_then (getitem df (Col ''Credit'')) (\<lambda>credit.
      and_then (to_numeric lib credit) (\<lambda>credit.
      let df = setitem df (Col ''Credit'') credit;
          df = fillna lib (np_zero lib) df in
      and_then (getitem df (Col ''Credit'')) (\<lambda>credit.
      and_then (getitem df (Col ''Debit'')) (\<lambda>debit.
      and_then (add_items lib credit debit) (\<lambda>amount.
      let df = setitem df (Col ''Amount'') amount in
      and_then (drop_columns df
                  [Col ''Status'', Col ''Member Name'', Col ''Debit'', Col ''Credit'']) (\<lambda>df.
      select df [Col ''Date'', Col ''Amount'', Col ''Description''])))))))))))"

text \<open>
  \<^verbatim>\<open>
  df = dataframe.copy()
  df.columns = df.iloc[0]
  df = df[1:]
  df.drop(columns=["Post Date", "Category"], inplace=True)
  df.rename(columns={"Trans. Date": "Date"}, inplace=True)
  df = df[["Date", "Description", "Amount"]]
  df["Amount"] = pd.to_numeric(df["Amount"])
  return df
  \<close>
\<close>

definition normalize_discover :: "'n pylib \<Rightarrow> 'n dataframe \<Rightarrow> py_error + 'n dataframe" where
  "normalize_discover lib dataframe =
     (let df = dataframe in
      and_then (iloc0 df) (\<lambda>row0.
      and_then (set_columns df (map Lab row0)) (\<lambda>df.
      let df = tail_rows df in
      and_then (drop_columns df [Col ''Post Date'', Col ''Category'']) (\<lambda>df.
      let df = rename df (Col ''Trans. Date'') (Col ''Date'') in
      and_then (select df [Col ''Date'', Col ''Description'', Col ''Amount'']) (\<lambda>df.
      and_then (getitem df (Col ''Amount'')) (\<lambda>amount.
      and_then (to_numeric lib amount) (\<lambda>amount.
      Inr (setitem df (Col ''Amount'') amount))))))))"

text \<open>
  \<^verbatim>\<open>
  df = dataframe.copy()
  df.drop(columns=[2, 3], inplace=True)
  df.columns = ["Date", "Amount", "Description"]
  return df
  \<close>
\<close>

definition normalize_wellsfargo :: "'n dataframe \<Rightarrow> py_error + 'n dataframe" where
  "normalize_wellsfargo dataframe =
     (let df = dataframe in
      and_then (drop_columns df [Pos 2, Pos 3]) (\<lambda>df.
      set_columns df [Col ''Date'', Col ''Amount'', Col ''Description'']))"

section \<open>The pipeline driver: \<^verbatim>\<open>main\<close>\<close>

text \<open>
  An input file of the command line: its name and the records pandas parses from it.
  The state of the loop over the files: the accumulated tables and what has been printed.
\<close>

record 'n csv_file =
  name :: string
  records :: "'n cell list list"

record 'n state =
  transaction_dataframes :: "'n dataframe list"
  stdout :: "string list"

text \<open>
  The body of the loop. An exception that is not caught ends the run (\<open>Inl\<close>).
  \<^verbatim>\<open>
  df = pd.read_csv(file, header=None)
  if "Status" == df[0][0]:
      df = normalize_citi(df)
      transaction_dataframes.append(df)
  elif "Trans. Date" == df[0][0]:
      df = normalize_discover(df)
      transaction_dataframes.append(df)
  else:
      try:
          datetime.strptime(df[0][0], "%m/%d/%Y").date()
          df = normalize_wellsfargo(df)
          transaction_dataframes.append(df)
      except ValueError:
          print("Error: Unknown format from", file.name)
  \<close>
  \<^verbatim>\<open>strptime\<close> raises TypeError, which nothing catches, when its argument is not a \<^verbatim>\<open>str\<close>.
\<close>

definition append_df :: "'n state \<Rightarrow> 'n dataframe \<Rightarrow> 'n state" where
  "append_df st df = st\<lparr>transaction_dataframes := transaction_dataframes st @ [df]\<rparr>"

definition print_unknown :: "'n state \<Rightarrow> string \<Rightarrow> 'n state" where
  "print_unknown st file_name =
     st\<lparr>stdout := stdout st @ [''Error: Unknown format from '' @ file_name]\<rparr>"

definition try_wellsfargo :: "'n pylib \<Rightarrow> 'n cell \<Rightarrow> 'n dataframe \<Rightarrow> py_error + 'n dataframe" where
  "try_wellsfargo lib c df =
     (case c of
        Num _ \<Rightarrow> Inl TypeError
      | Str s \<Rightarrow>
          if strptime lib s ''%m/%d/%Y'' then normalize_wellsfargo df else Inl ValueError)"

definition for_body :: "'n pylib \<Rightarrow> 'n csv_file \<Rightarrow> 'n state \<Rightarrow> py_error + 'n state" where
  "for_body lib f st =
     and_then (read_csv lib (records f)) (\<lambda>df.
     and_then (cell00 df) (\<lambda>c.
     if Str ''Status'' = c
     then and_then (normalize_citi lib df) (\<lambda>df. Inr (append_df st df))
     else if Str ''Trans. Date'' = c
     then and_then (normalize_discover lib df) (\<lambda>df. Inr (append_df st df))
     else
       (case try_wellsfargo lib c df of
          Inr df \<Rightarrow> Inr (append_df st df)
        | Inl e \<Rightarrow> if e = ValueError then Inr (print_unknown st (name f)) else Inl e)))"

text \<open>The loop: the state it ends in, and the exception that ended it, if any.\<close>

fun for_loop :: "'n pylib \<Rightarrow> 'n csv_file list \<Rightarrow> 'n state \<Rightarrow> 'n state \<times> py_error option" where
  "for_loop lib [] st = (st, None)"
| "for_loop lib (f # files) st =
     (case for_body lib f st of
        Inl e \<Rightarrow> (st, Some e)
      | Inr st' \<Rightarrow> for_loop lib files st')"

text \<open>
  \<^verbatim>\<open>result["Category"] = result["Description"].apply(lambda x: lookup(x, lookup_df))\<close>.
  On a \<^verbatim>\<open>Series\<close>, \<^verbatim>\<open>apply\<close> calls \<^verbatim>\<open>lookup\<close> on each description in order. When several
  columns are labelled Description, \<^verbatim>\<open>apply\<close> hands \<^verbatim>\<open>lookup\<close> whole columns, which like NaN
  are no \<^verbatim>\<open>str\<close>, and what it returns cannot be assigned (ValueError).
\<close>

definition categorize ::
  "'n pylib \<Rightarrow> 'n rule list \<Rightarrow> 'n dataframe \<Rightarrow> py_error + 'n dataframe" where
  "categorize lib lookup_df result =
     and_then (getitem result (Col ''Description'')) (\<lambda>descriptions.
     case descriptions of
       SubFrame \<Rightarrow>
         and_then (lookup (re_compile lib) (Num (np_nan lib)) lookup_df) (\<lambda>_. Inl ValueError)
     | Series ds \<Rightarrow>
         and_then (map_raise (\<lambda>x. lookup (re_compile lib) x lookup_df) ds) (\<lambda>categories.
         Inr (setitem result (Col ''Category'') categories)))"

text \<open>
  The run, given the rule table read from \<^verbatim>\<open>spend_analysis.csv\<close> and the files of the command
  line (\<^verbatim>\<open>nargs="+"\<close>: argparse exits when there is none). The result is what was printed,
  and either the exception that ended the run or the contents written to \<^verbatim>\<open>out.csv\<close>.
  \<^verbatim>\<open>
  result = pd.concat(transaction_dataframes)
  result["Category"] = result["Description"].apply(lambda x: lookup(x, lookup_df))
  result.to_csv("out.csv", index=False)
  \<close>
\<close>

definition main ::
  "'n pylib \<Rightarrow> 'n rule list \<Rightarrow> 'n csv_file list \<Rightarrow> string list \<times> (py_error + 'n csv)" where
  "main lib lookup_df files =
     (if files = [] then ([], Inl SystemExit)
      else
        (case for_loop lib files \<lparr>transaction_dataframes = [], stdout = []\<rparr> of
           (st, Some e) \<Rightarrow> (stdout st, Inl e)
         | (st, None) \<Rightarrow>
             (stdout st,
              and_then (pd_concat lib (transaction_dataframes st)) (\<lambda>result.
              and_then (categorize lib lookup_df result) (\<lambda>result.
              Inr (to_csv result))))))"



section \<open>An instance of the library interface, and example files\<close>

text \<open>
  To run the model on the examples of the doctests, the interface is instantiated:
  numbers are exact rationals with a NaN beside them (\<open>float\<close>; every sum of the examples
  is exact in floating point as well), \<open>decimal\<close> reads an optional minus sign, digits
  and an optional fraction (the empty string gives NaN), \<open>literal\<close> is the regular
  expression search for patterns of letters, digits and blanks, which match themselves,
  and knows no other pattern, and \<open>month_day_year\<close> accepts the dates of the format
  \<^verbatim>\<open>%m/%d/%Y\<close>, the only format the program uses.
\<close>

datatype float = NaN | Val rat

definition digit :: "char \<Rightarrow> nat option" where
  "digit c = map_of (zip ''0123456789'' [0, 1, 2, 3, 4, 5, 6, 7, 8, 9]) c"

fun digits :: "nat \<Rightarrow> string \<Rightarrow> nat option" where
  "digits acc [] = Some acc"
| "digits acc (c # cs) = (case digit c of None \<Rightarrow> None | Some d \<Rightarrow> digits (10 * acc + d) cs)"

definition unsigned :: "string \<Rightarrow> rat option" where
  "unsigned s =
     (let ip = takeWhile (\<lambda>c. c \<noteq> CHR ''.'') s;
          fp = drop 1 (dropWhile (\<lambda>c. c \<noteq> CHR ''.'') s) in
      if ip = [] then None
      else case (digits 0 ip, digits 0 fp) of
             (Some i, Some f) \<Rightarrow> Some (of_nat i + of_nat f / 10 ^ length fp)
           | _ \<Rightarrow> None)"

definition decimal :: "string \<Rightarrow> float option" where
  "decimal s =
     (case s of
        [] \<Rightarrow> Some NaN
      | c # cs \<Rightarrow>
          if c = CHR ''-'' then map_option (\<lambda>x. Val (- x)) (unsigned cs)
          else map_option Val (unsigned s))"

definition plus_float :: "float \<Rightarrow> float \<Rightarrow> float" where
  "plus_float a b = (case (a, b) of (Val x, Val y) \<Rightarrow> Val (x + y) | _ \<Rightarrow> NaN)"

definition upper :: "char \<Rightarrow> char" where
  "upper c =
     (case map_of (zip ''abcdefghijklmnopqrstuvwxyz'' ''ABCDEFGHIJKLMNOPQRSTUVWXYZ'') c of
        None \<Rightarrow> c
      | Some u \<Rightarrow> u)"

fun starts_with :: "string \<Rightarrow> string \<Rightarrow> bool" where
  "starts_with s [] = True"
| "starts_with [] (c # p) = False"
| "starts_with (d # s) (c # p) = (c = d \<and> starts_with s p)"

fun contains :: "string \<Rightarrow> string \<Rightarrow> bool" where
  "contains [] p = (p = [])"
| "contains (d # s) p = (starts_with (d # s) p \<or> contains s p)"

definition literal :: "string \<Rightarrow> nat \<Rightarrow> (string \<Rightarrow> bool) option" where
  "literal p flags =
     (if list_all (\<lambda>c. c \<in> set ''abcdefghijklmnopqrstuvwxyzABCDEFGHIJKLMNOPQRSTUVWXYZ0123456789 '') p
      then Some (\<lambda>s. if flags = IGNORECASE then contains (map upper s) (map upper p)
                      else contains s p)
      else None)"

fun split_slash :: "string \<Rightarrow> string \<Rightarrow> string list" where
  "split_slash acc [] = [rev acc]"
| "split_slash acc (c # cs) =
     (if c = CHR ''/'' then rev acc # split_slash [] cs else split_slash (c # acc) cs)"

definition leap :: "nat \<Rightarrow> bool" where
  "leap y = (if y mod 400 = 0 then True else if y mod 100 = 0 then False else y mod 4 = 0)"

definition days_in_month :: "nat \<Rightarrow> nat \<Rightarrow> nat" where
  "days_in_month y m =
     (if m = 2 then (if leap y then 29 else 28)
      else if m \<in> set [4, 6, 9, 11] then 30 else 31)"

definition month_day_year :: "string \<Rightarrow> string \<Rightarrow> bool" where
  "month_day_year s fmt =
     (if fmt = ''%m/%d/%Y''
      then (case split_slash [] s of
              [m, d, y] \<Rightarrow>
                (let d' = (if length d = 2 \<and> take 1 d = '' '' then drop 1 d else d) in
                 case (digits 0 m, digits 0 d', digits 0 y) of
                   (Some mv, Some dv, Some yv) \<Rightarrow>
                     length m \<in> set [1, 2] \<and> 1 \<le> mv \<and> mv \<le> 12
                     \<and> length d' \<in> set [1, 2] \<and> 1 \<le> dv \<and> dv \<le> days_in_month yv mv
                     \<and> length y = 4 \<and> 1 \<le> yv
                 | _ \<Rightarrow> False)
            | _ \<Rightarrow> False)
      else False)"

definition example_lib :: "float pylib" where
  "example_lib =
     \<lparr>np_nan = NaN, np_isnan = (\<lambda>x. x = NaN), np_zero = Val 0, np_add = plus_float,
      np_parse = decimal, re_compile = literal, strptime = month_day_year\<rparr>"


definition discover_table :: "float cell list list" where
  "discover_table =
     [[Str ''Trans. Date'', Str ''Post Date'', Str ''Description'', Str ''Amount'',
       Str ''Category''],
      [Str ''01/10/2022'', Str ''01/11/2022'', Str ''THE HOME DEPOT 0509 AUSTIN TX'',
       Str ''27.03'', Str ''Home Improvement'']]"

definition wellsfargo_table :: "float cell list list" where
  "wellsfargo_table =
     [[Str ''01/10/2023'', Num (Val (- 724 / 100)), Str ''*'', Num NaN, Str ''Audible Amzn''],
      [Str ''01/04/2023'', Num (Val (- 20636 / 100)), Str ''*'', Num NaN,
       Str ''STATE FARM INSURANCE'']]"

definition example_rules :: "float rule list" where
  "example_rules = [\<lparr>regex = Str ''ALDI'', category = Str ''food''\<rparr>,
                    \<lparr>regex = Str ''AMAZING THREADS'', category = Str ''merchandise''\<rparr>,
                    \<lparr>regex = Str ''home depot'', category = Str ''home''\<rparr>]"


definition wellsfargo_file :: "float csv_file" where
  "wellsfargo_file = \<lparr>name = ''wellsfargo.csv'', records = wellsfargo_table\<rparr>"

definition unknown_file :: "float csv_file" where
  "unknown_file = \<lparr>name = ''notes.csv'', records = [[Str ''???'', Str ''x'', Str ''y'']]\<rparr>"

definition numeric_file :: "float csv_file" where
  "numeric_file =
     \<lparr>name = ''checks.csv'', records = [[Num (Val 1001), Str ''GROCERY'', Num (Val (25 / 2))]]\<rparr>"

definition bad_citi_file :: "float csv_file" where
  "bad_citi_file =
     \<lparr>name = ''citi.csv'',
      records =
        [[Str ''Status'', Str ''Date'', Str ''Description'', Str ''Debit'', Str ''Credit'',
          Str ''Member Name''],
         [Str ''Cleared'', Str ''01/28/2023'', Str ''PET HOSPITAL'', Str ''abc'', Num NaN,
          Str ''BOB JONES'']]\<rparr>"



section \<open>Rows and labels\<close>

lemma pick_Nil [simp]: "pick k [] r = []" "pick k ls [] = []"
  by (simp_all add: pick_def)

lemma pick_Cons [simp]:
  "pick k (l # ls) (c # r) = (if l = k then c # pick k ls r else pick k ls r)"
  by (simp add: pick_def)

lemma pick_notin: "k \<notin> set ls \<Longrightarrow> pick k ls r = []"
  by (induction ls r rule: list_induct2') auto

lemma pick_nth:
  "length ls = length r \<Longrightarrow> distinct ls \<Longrightarrow> i < length ls \<Longrightarrow> pick (ls ! i) ls r = [r ! i]"
proof (induction ls r arbitrary: i rule: list_induct2)
  case Nil
  then show ?case by simp
next
  case (Cons l ls c r)
  show ?case
  proof (cases i)
    case 0
    then show ?thesis using Cons.prems by (simp add: pick_notin)
  next
    case (Suc j)
    then have "ls ! j \<noteq> l" using Cons.prems by auto
    moreover have "pick (ls ! j) ls r = [r ! j]"
      using Cons.IH [of j] Cons.prems Suc by simp
    ultimately show ?thesis using Suc by simp
  qed
qed



lemma pick_map: "pick k ls (map f r) = map f (pick k ls r)"
  by (simp add: pick_def zip_map2 filter_map o_def split_def)

lemma pick_setcol:
  "pick k ls (map (\<lambda>(l, c). if l = k' then v else c) (zip ls r)) =
     (if k = k' then map (\<lambda>_. v) (pick k ls r) else pick k ls r)"
  by (induction ls r rule: list_induct2') auto

lemma pick_dropped:
  "pick k (filter P ls) (map snd (filter (\<lambda>(l, c). P l) (zip ls r))) =
     (if P k then pick k ls r else [])"
  by (induction ls r rule: list_induct2') auto

lemma setcol_notin:
  "length ls = length r \<Longrightarrow> k \<notin> set ls \<Longrightarrow>
   map (\<lambda>(l, c). if l = k then v else c) (zip ls r) = r"
  by (induction ls r rule: list_induct2) auto

lemma setcol_nth:
  "length ls = length r \<Longrightarrow> distinct ls \<Longrightarrow> i < length ls \<Longrightarrow>
   map (\<lambda>(l, c). if l = ls ! i then v else c) (zip ls r) = r[i := v]"
proof (induction ls r arbitrary: i rule: list_induct2)
  case Nil
  then show ?case by simp
next
  case (Cons l ls c r)
  show ?case
  proof (cases i)
    case 0
    then show ?thesis using Cons.prems Cons.hyps by (simp add: setcol_notin)
  next
    case (Suc j)
    then have "ls ! j \<noteq> l" using Cons.prems by auto
    moreover have "map (\<lambda>(l, c). if l = ls ! j then v else c) (zip ls r) = r[j := v]"
      using Cons.IH [of j] Cons.prems Suc by simp
    ultimately show ?thesis using Suc by simp
  qed
qed

lemma count_list_nth: "distinct ls \<Longrightarrow> i < length ls \<Longrightarrow> count_list ls (ls ! i) = 1"
  by (induction ls arbitrary: i) (auto simp: nth_Cons split: nat.splits)

lemma filter_eq_distinct: "distinct ls \<Longrightarrow> k \<in> set ls \<Longrightarrow> filter (\<lambda>l. l = k) ls = [k]"
  by (induction ls) (auto simp: filter_empty_conv)

lemma map_raise_map:
  "\<forall>x \<in> set xs. f (g x) = Inr (h x) \<Longrightarrow> map_raise f (map g xs) = Inr (map h xs)"
  by (induction xs) simp_all


lemma zip_same_map: "zip xs (map g xs) = map (\<lambda>x. (x, g x)) xs"
  by (induction xs) simp_all


section \<open>Frame operations on well-formed tables\<close>

lemma read_csv_rectangular:
  assumes "tbl = r0 # rest" and "r0 \<noteq> []" and "\<forall>r \<in> set tbl. length r = length r0"
  shows "read_csv lib tbl =
           Inr \<lparr>index = [0..<length tbl], columns = map Pos [0..<length r0], rows = tbl\<rparr>"
proof -
  obtain c cs where r0: "r0 = c # cs" using assms(2) by (cases r0) auto
  have pad: "map (\<lambda>r. r @ replicate (length r0 - length r) (Num (np_nan lib))) tbl = tbl"
    using assms(3) by (simp add: map_idI)
  have le: "list_all (\<lambda>r. length r \<le> length r0) tbl"
    using assms(3) by (simp add: list_all_iff)
  show ?thesis
    using pad le unfolding read_csv_def assms(1) r0 by (simp add: Let_def)
qed

lemma getitem_nth:
  assumes "distinct ls" and "i < length ls" and "\<forall>x \<in> set xs. length (f x) = length ls"
  shows "getitem \<lparr>index = ix, columns = ls, rows = map f xs\<rparr> (ls ! i) =
           Inr (Series (map (\<lambda>x. f x ! i) xs))"
proof -
  have "concat (map (pick (ls ! i) ls) (map f xs)) = map (\<lambda>x. f x ! i) xs"
    using assms by (induction xs) (simp_all add: pick_nth)
  then show ?thesis
    using assms by (simp add: getitem_def count_list_nth)
qed

lemma setitem_nth:
  assumes "distinct ls" and "i < length ls" and "\<forall>x \<in> set xs. length (f x) = length ls"
  shows "setitem \<lparr>index = ix, columns = ls, rows = map f xs\<rparr> (ls ! i) (map g xs) =
           \<lparr>index = ix, columns = ls, rows = map (\<lambda>x. (f x)[i := g x]) xs\<rparr>"
proof -
  have "map (\<lambda>(r, v). map (\<lambda>(l, c). if l = ls ! i then v else c) (zip ls r))
            (zip (map f xs) (map g xs)) = map (\<lambda>x. (f x)[i := g x]) xs"
    using assms by (induction xs) (simp_all add: setcol_nth)
  then show ?thesis
    using assms by (simp add: setitem_def)
qed


lemma to_numeric_Series:
  assumes "\<forall>x \<in> set xs. to_numeric1 lib (g x) = Inr (h x)"
  shows "to_numeric lib (Series (map g xs)) = Inr (map h xs)"
  using assms by (simp add: to_numeric_def map_raise_map)



lemma select_rows:
  assumes "list_all (\<lambda>k. k \<in> set ls) ks"
  shows "select \<lparr>index = ix, columns = ls, rows = map f xs\<rparr> ks =
           Inr \<lparr>index = ix, columns = concat (map (\<lambda>k. filter (\<lambda>l. l = k) ls) ks),
                rows = map (\<lambda>x. concat (map (\<lambda>k. pick k ls (f x)) ks)) xs\<rparr>"
  using assms by (simp add: select_def o_def)

lemma drop_columns_rows:
  assumes "list_all (\<lambda>k. k \<in> set ls) ks"
  shows "drop_columns \<lparr>index = ix, columns = ls, rows = map f xs\<rparr> ks =
           Inr \<lparr>index = ix, columns = filter (\<lambda>l. l \<notin> set ks) ls,
                rows = map (\<lambda>x. map snd (filter (\<lambda>(l, c). l \<notin> set ks) (zip ls (f x)))) xs\<rparr>"
  using assms by (simp add: drop_columns_def o_def)

lemma pick_rename:
  "new \<notin> set ls \<Longrightarrow> old \<noteq> new \<Longrightarrow>
   pick k (map (\<lambda>l. if l = old then new else l) ls) r =
     (if k = new then pick old ls r else if k = old then [] else pick k ls r)"
  by (induction ls r rule: list_induct2') auto


lemma upt_5: "[0..<5] = [0, 1, 2, 3, 4]"
  by (simp add: upt_rec)

lemma length_5E:
  assumes "length r = 5"
  obtains a b c d e where "r = [a, b, c, d, e]"
  using assms by (auto simp: length_Suc_conv numeral_eq_Suc)

section \<open>The categorizer returns the category of the first matching rule\<close>

text \<open>
  Claim C1. \<^verbatim>\<open>lookup\<close> scans the rules in the order of the table and returns the category
  of the first rule whose pattern matches the description, the match being
  \<^verbatim>\<open>re.search\<close> with \<^verbatim>\<open>re.IGNORECASE\<close> (case-insensitive, not anchored): when the rule at
  position \<open>i\<close> matches and no rule before it does, the result is that rule's category.
  When no rule of the table matches, an empty table included, the result is the string
  \<^verbatim>\<open>unknown\<close>.
\<close>

theorem lookup_first_match:
  "(i < length lookups
      \<and> re_search re (regex (lookups ! i)) description IGNORECASE = Inr True
      \<and> (\<forall>j<i. re_search re (regex (lookups ! j)) description IGNORECASE = Inr False)
    \<longrightarrow> lookup re description lookups = Inr (category (lookups ! i)))
   \<and> ((\<forall>row \<in> set lookups. re_search re (regex row) description IGNORECASE = Inr False)
    \<longrightarrow> lookup re description lookups = Inr (Str ''unknown''))"
proof (intro conjI impI)
  assume "i < length lookups
      \<and> re_search re (regex (lookups ! i)) description IGNORECASE = Inr True
      \<and> (\<forall>j<i. re_search re (regex (lookups ! j)) description IGNORECASE = Inr False)"
  then show "lookup re description lookups = Inr (category (lookups ! i))"
  proof (induction lookups arbitrary: i)
    case Nil
    then show ?case by simp
  next
    case (Cons row rest)
    show ?case
    proof (cases i)
      case 0
      with Cons.prems show ?thesis by simp
    next
      case (Suc k)
      from Cons.prems Suc have first: "re_search re (regex row) description IGNORECASE = Inr False"
        by auto
      from Cons.prems Suc have "k < length rest
        \<and> re_search re (regex (rest ! k)) description IGNORECASE = Inr True
        \<and> (\<forall>j<k. re_search re (regex (rest ! j)) description IGNORECASE = Inr False)"
        by auto
      then have "lookup re description rest = Inr (category (rest ! k))"
        by (rule Cons.IH)
      with first Suc show ?thesis by simp
    qed
  qed
next
  assume "\<forall>row \<in> set lookups. re_search re (regex row) description IGNORECASE = Inr False"
  then show "lookup re description lookups = Inr (Str ''unknown'')"
    by (induction lookups) simp_all
qed

theorem lookup_first_match_witness:
  "lookup literal (Str ''THE AMAZING THREADS INC'') example_rules = Inr (Str ''merchandise'')
   \<and> lookup literal (Str ''UNKNOWN VENDOR'') example_rules = Inr (Str ''unknown'')
   \<and> lookup literal (Str ''ALDI 72083 CRYSTAL MN'') [] = Inr (Str ''unknown'' :: float cell)"
proof -
  have m0: "re_search literal (regex (example_rules ! 0)) (Str ''THE AMAZING THREADS INC'')
              IGNORECASE = Inr False"
    by code_simp
  have m1: "re_search literal (regex (example_rules ! 1)) (Str ''THE AMAZING THREADS INC'')
              IGNORECASE = Inr True"
    by code_simp
  have len: "1 < length example_rules"
    by (simp add: example_rules_def)
  have u: "\<forall>row \<in> set example_rules.
             re_search literal (regex row) (Str ''UNKNOWN VENDOR'') IGNORECASE = Inr False"
    unfolding example_rules_def by code_simp
  have c: "category (example_rules ! 1) = Str ''merchandise''"
    by (simp add: example_rules_def)
  from lookup_first_match [of 1 example_rules literal "Str ''THE AMAZING THREADS INC''"] m0 m1 len c
  have "lookup literal (Str ''THE AMAZING THREADS INC'') example_rules = Inr (Str ''merchandise'')"
    by simp
  moreover from lookup_first_match [of 0 example_rules literal "Str ''UNKNOWN VENDOR''"] u
  have "lookup literal (Str ''UNKNOWN VENDOR'') example_rules = Inr (Str ''unknown'')"
    by blast
  moreover from lookup_first_match [of 0 "[]" literal "Str ''ALDI 72083 CRYSTAL MN'' :: float cell"]
  have "lookup literal (Str ''ALDI 72083 CRYSTAL MN'') [] = Inr (Str ''unknown'' :: float cell)"
    by simp
  ultimately show ?thesis by simp
qed

section \<open>The Format A normalizer\<close>



section \<open>The Format B normalizer\<close>

text \<open>
  Claim C4, as amended. For a Format B table (a header row with the columns Trans. Date,
  Post Date, Description, Amount and Category, each once, and no Date column) whose Amount
  cells are numbers or strings that \<^verbatim>\<open>to_numeric\<close> parses, \<^verbatim>\<open>normalize_discover\<close> takes row 0 as
  the column names and drops it, drops Post Date and Category, renames Trans. Date to
  Date, reads Amount as a number, keeps the order of the rows, and returns the columns in
  the order Date, Description, Amount. This is the order of the doctest of the source; it
  is not the order Date, Amount, Description of the other two normalizers.
\<close>

theorem normalize_discover_format_B:
  fixes lib :: "'n pylib" and hdr :: "'n cell list"
  assumes dist: "distinct hdr"
    and rect: "\<forall>r \<in> set rws. length r = length hdr"
    and td: "td < length hdr" "hdr ! td = Str ''Trans. Date''"
    and pd: "pd < length hdr" "hdr ! pd = Str ''Post Date''"
    and ds: "ds < length hdr" "hdr ! ds = Str ''Description''"
    and am: "am < length hdr" "hdr ! am = Str ''Amount''"
    and cg: "cg < length hdr" "hdr ! cg = Str ''Category''"
    and no_date: "Str ''Date'' \<notin> set hdr"
    and nums: "\<forall>r \<in> set rws. to_numeric1 lib (r ! am) = Inr (Num (amount r))"
  shows "and_then (read_csv lib (hdr # rws)) (normalize_discover lib) =
           Inr \<lparr>index = [1..<Suc (length rws)],
                columns = [Col ''Date'', Col ''Description'', Col ''Amount''],
                rows = map (\<lambda>r. [r ! td, r ! ds, Num (amount r)]) rws\<rparr>"
proof -
  define L where "L = map Lab hdr"
  define ix0 where "ix0 = [0..<Suc (length rws)]"
  define ix1 where "ix1 = [1..<Suc (length rws)]"
  define ks where "ks = [Col ''Post Date'', Col ''Category'' :: 'n label]"
  define L1 where "L1 = filter (\<lambda>l. l \<notin> set ks) L"
  define L2 where "L2 = map (\<lambda>l. if l = Col ''Trans. Date'' then Col ''Date'' else l) L1"
  define sel where "sel = [Col ''Date'', Col ''Description'', Col ''Amount'' :: 'n label]"
  define r1 where "r1 = (\<lambda>r :: 'n cell list. map snd (filter (\<lambda>(l, c). l \<notin> set ks) (zip L r)))"
  have hdr_ne: "hdr \<noteq> []" using td by auto
  have dL: "distinct L" using dist by (simp add: L_def distinct_map inj_on_def)
  have lenL: "length L = length hdr" by (simp add: L_def)
  have Ltd: "L ! td = Col ''Trans. Date''" and Lpd: "L ! pd = Col ''Post Date''"
    and Lds: "L ! ds = Col ''Description''" and Lam: "L ! am = Col ''Amount''"
    and Lcg: "L ! cg = Col ''Category''"
    using td pd ds am cg by (simp_all add: L_def)
  have mem: "Col ''Trans. Date'' \<in> set L" "Col ''Post Date'' \<in> set L"
    "Col ''Description'' \<in> set L" "Col ''Amount'' \<in> set L" "Col ''Category'' \<in> set L"
    using td pd ds am cg lenL Ltd Lpd Lds Lam Lcg by (metis nth_mem)+
  have noD: "Col ''Date'' \<notin> set L" using no_date by (auto simp: L_def)
  have len0: "\<forall>r \<in> set rws. length r = length L" using rect lenL by simp
  have rd: "read_csv lib (hdr # rws) =
      Inr \<lparr>index = ix0, columns = map Pos [0..<length hdr], rows = hdr # rws\<rparr>"
    using read_csv_rectangular [of "hdr # rws" hdr rws lib] hdr_ne rect by (simp add: ix0_def)
  have i0: "iloc0 \<lparr>index = ix0, columns = map Pos [0..<length hdr], rows = hdr # rws\<rparr> = Inr hdr"
    by (simp add: iloc0_def)
  have s1: "set_columns \<lparr>index = ix0, columns = map Pos [0..<length hdr], rows = hdr # rws\<rparr>
              (map Lab hdr) = Inr \<lparr>index = ix0, columns = L, rows = hdr # rws\<rparr>"
    by (simp add: set_columns_def L_def)
  have s2: "tail_rows \<lparr>index = ix0, columns = L, rows = hdr # rws\<rparr> =
      \<lparr>index = ix1, columns = L, rows = rws\<rparr>"
    by (simp add: tail_rows_def ix0_def ix1_def upt_conv_Cons)
  have d3: "drop_columns \<lparr>index = ix1, columns = L, rows = rws\<rparr> ks =
      Inr \<lparr>index = ix1, columns = L1, rows = map r1 rws\<rparr>"
    using mem drop_columns_rows [of L ks ix1 "\<lambda>r. r" rws] by (simp add: ks_def L1_def r1_def)
  have r4: "rename \<lparr>index = ix1, columns = L1, rows = map r1 rws\<rparr>
              (Col ''Trans. Date'') (Col ''Date'') = \<lparr>index = ix1, columns = L2, rows = map r1 rws\<rparr>"
    by (simp add: rename_def L2_def)
  have noD1: "Col ''Date'' \<notin> set L1" using noD by (simp add: L1_def)
  have dL1: "distinct L1" using dL by (simp add: L1_def)
  have dL2: "distinct L2"
    unfolding L2_def using dL1 noD1 by (auto simp: distinct_map inj_on_def)
  have mem1: "Col ''Trans. Date'' \<in> set L1" "Col ''Description'' \<in> set L1" "Col ''Amount'' \<in> set L1"
    using mem by (simp_all add: L1_def ks_def)
  have mem2: "Col ''Date'' \<in> set L2" "Col ''Description'' \<in> set L2" "Col ''Amount'' \<in> set L2"
    using mem1 by (auto simp: L2_def)
  have cols: "concat (map (\<lambda>k. filter (\<lambda>l. l = k) L2) sel) = sel"
    using dL2 mem2 by (simp add: sel_def filter_eq_distinct)
  have p1: "pick k L1 (r1 r) = pick k L r" if "k \<notin> set ks" for k r
    unfolding L1_def r1_def using that by (simp only: pick_dropped) simp
  have pk: "pick (L ! i) L r = [r ! i]" if "r \<in> set rws" and "i < length hdr" for r i
    using pick_nth [of L r i] dL lenL len0 that by simp
  have row: "concat (map (\<lambda>k. pick k L2 (r1 r)) sel) = [r ! td, r ! ds, r ! am]"
    if "r \<in> set rws" for r
  proof -
    have k: "Col ''Trans. Date'' \<notin> set ks" "Col ''Description'' \<notin> set ks" "Col ''Amount'' \<notin> set ks"
      by (simp_all add: ks_def)
    have "pick (Col ''Date'') L2 (r1 r) = [r ! td]"
      unfolding L2_def using noD1 pk [OF that td(1)] Ltd k by (simp add: pick_rename p1)
    moreover have "pick (Col ''Description'') L2 (r1 r) = [r ! ds]"
      unfolding L2_def using noD1 pk [OF that ds(1)] Lds k by (simp add: pick_rename p1)
    moreover have "pick (Col ''Amount'') L2 (r1 r) = [r ! am]"
      unfolding L2_def using noD1 pk [OF that am(1)] Lam k by (simp add: pick_rename p1)
    ultimately show ?thesis by (simp add: sel_def)
  qed
  have s5: "select \<lparr>index = ix1, columns = L2, rows = map r1 rws\<rparr> sel =
      Inr \<lparr>index = ix1, columns = sel, rows = map (\<lambda>r. [r ! td, r ! ds, r ! am]) rws\<rparr>"
  proof -
    have la: "list_all (\<lambda>k. k \<in> set L2) sel" using mem2 by (simp add: sel_def)
    have "map (\<lambda>x. concat (map (\<lambda>k. pick k L2 (r1 x)) sel)) rws =
          map (\<lambda>r. [r ! td, r ! ds, r ! am]) rws"
      using row by (intro map_cong) simp_all
    then show ?thesis
      using select_rows [OF la, of ix1 r1 rws] cols by simp
  qed
  have g6: "getitem \<lparr>index = ix1, columns = sel, rows = map (\<lambda>r. [r ! td, r ! ds, r ! am]) rws\<rparr>
              (Col ''Amount'') = Inr (Series (map (\<lambda>r. r ! am) rws))"
    using getitem_nth [of sel 2 rws "\<lambda>r. [r ! td, r ! ds, r ! am]" ix1] by (simp add: sel_def)
  have n7: "to_numeric lib (Series (map (\<lambda>r. r ! am) rws)) = Inr (map (\<lambda>r. Num (amount r)) rws)"
    using nums by (intro to_numeric_Series) simp
  have u8: "setitem \<lparr>index = ix1, columns = sel, rows = map (\<lambda>r. [r ! td, r ! ds, r ! am]) rws\<rparr>
              (Col ''Amount'') (map (\<lambda>r. Num (amount r)) rws) =
      \<lparr>index = ix1, columns = sel, rows = map (\<lambda>r. [r ! td, r ! ds, Num (amount r)]) rws\<rparr>"
    using setitem_nth [of sel 2 rws "\<lambda>r. [r ! td, r ! ds, r ! am]" ix1 "\<lambda>r. Num (amount r)"]
    by (simp add: sel_def)
  have "and_then (read_csv lib (hdr # rws)) (normalize_discover lib) =
      Inr \<lparr>index = ix1, columns = sel, rows = map (\<lambda>r. [r ! td, r ! ds, Num (amount r)]) rws\<rparr>"
    unfolding normalize_discover_def Let_def ks_def [symmetric] sel_def [symmetric]
    by (simp only: and_then_def sum.case rd i0 s1 s2 d3 r4 s5 g6 n7 u8)
  then show ?thesis
    by (simp add: ix1_def sel_def)
qed

theorem normalize_discover_format_B_witness:
  "and_then (read_csv example_lib discover_table) (normalize_discover example_lib) =
     Inr \<lparr>index = [1],
          columns = [Col ''Date'', Col ''Description'', Col ''Amount''],
          rows = [[Str ''01/10/2022'', Str ''THE HOME DEPOT 0509 AUSTIN TX'', Num (Val (2703 / 100))]]\<rparr>"
proof -
  define hdr :: "float cell list" where "hdr = hd discover_table"
  define rws where "rws = tl discover_table"
  define num where "num = (\<lambda>c. case to_numeric1 example_lib c of Inr (Num x) \<Rightarrow> x | _ \<Rightarrow> NaN)"
  have t: "discover_table = hdr # rws" by (simp add: hdr_def rws_def discover_table_def)
  have p1: "decimal ''27.03'' = Some (Val (2703 / 100))" by code_simp
  have nums: "\<forall>r \<in> set rws. to_numeric1 example_lib (r ! 3) = Inr (Num (num (r ! 3)))"
    by (simp add: rws_def discover_table_def num_def to_numeric1_def example_lib_def p1)
  have h: "distinct hdr" "\<forall>r \<in> set rws. length r = length hdr" "Str ''Date'' \<notin> set hdr"
    "0 < length hdr" "hdr ! 0 = Str ''Trans. Date''" "1 < length hdr" "hdr ! 1 = Str ''Post Date''"
    "2 < length hdr" "hdr ! 2 = Str ''Description''" "3 < length hdr" "hdr ! 3 = Str ''Amount''"
    "4 < length hdr" "hdr ! 4 = Str ''Category''"
    by (simp_all add: hdr_def rws_def discover_table_def)
  have "and_then (read_csv example_lib (hdr # rws)) (normalize_discover example_lib) =
      Inr \<lparr>index = [1..<Suc (length rws)],
           columns = [Col ''Date'', Col ''Description'', Col ''Amount''],
           rows = map (\<lambda>r. [r ! 0, r ! 2, Num (num (r ! 3))]) rws\<rparr>"
    using h nums
    by (intro normalize_discover_format_B [where pd = 1 and cg = 4 and amount = "\<lambda>r. num (r ! 3)"])
      simp_all
  then show ?thesis
    unfolding t [symmetric]
    by (simp add: rws_def discover_table_def num_def to_numeric1_def example_lib_def p1)
qed

text \<open>
  On the table of the doctest the columns come out as Date, Description, Amount, so the
  claim that every normalizer emits Date, Amount, Description does not hold of this one.
\<close>

theorem normalize_discover_order_counterexample:
  "and_then (read_csv example_lib discover_table) (normalize_discover example_lib) =
     Inr \<lparr>index = [1],
          columns = [Col ''Date'', Col ''Description'', Col ''Amount''],
          rows = [[Str ''01/10/2022'', Str ''THE HOME DEPOT 0509 AUSTIN TX'', Num (Val (2703 / 100))]]\<rparr>
   \<and> and_then (and_then (read_csv example_lib discover_table) (normalize_discover example_lib))
        (\<lambda>df. Inr (columns df)) \<noteq> Inr [Col ''Date'', Col ''Amount'', Col ''Description'']"
  by code_simp

section \<open>The Format C normalizer\<close>

text \<open>
  Claim C5. For a Format C table (no header, five columns at fixed positions: 0 the date,
  1 the amount, 2 a flag, 3 a blank, 4 the description), \<^verbatim>\<open>normalize_wellsfargo\<close> drops the
  columns 2 and 3 and names the remaining ones Date, Amount, Description; every row of
  the file is kept, the first one included, in the order of the file.
\<close>

theorem normalize_wellsfargo_format_C:
  assumes "tbl \<noteq> []" and "\<forall>r \<in> set tbl. length r = 5"
  shows "and_then (read_csv lib tbl) normalize_wellsfargo =
           Inr \<lparr>index = [0..<length tbl],
                columns = [Col ''Date'', Col ''Amount'', Col ''Description''],
                rows = map (\<lambda>r. [r ! 0, r ! 1, r ! 4]) tbl\<rparr>"
proof -
  obtain r0 rest where t: "tbl = r0 # rest" using assms(1) by (cases tbl) auto
  with assms(2) have l0: "length r0 = 5" by simp
  then have "r0 \<noteq> []" by auto
  moreover have "\<forall>r \<in> set tbl. length r = length r0" using assms(2) l0 by simp
  ultimately have rd: "read_csv lib tbl =
      Inr \<lparr>index = [0..<length tbl], columns = map Pos [0..<5], rows = tbl\<rparr>"
    using read_csv_rectangular [OF t] l0 by simp
  have row: "map snd (filter (\<lambda>(l, c). l \<notin> set [Pos 2, Pos 3]) (zip (map Pos [0..<5]) r))
               = [r ! 0, r ! 1, r ! 4]" if "r \<in> set tbl" for r :: "'a cell list"
  proof -
    from that assms(2) have "length r = 5" by simp
    then obtain a b c d e where "r = [a, b, c, d, e]" by (rule length_5E)
    then show ?thesis by (simp add: upt_5)
  qed
  have "normalize_wellsfargo
          \<lparr>index = [0..<length tbl], columns = map Pos [0..<5], rows = tbl\<rparr> =
        Inr \<lparr>index = [0..<length tbl],
             columns = [Col ''Date'', Col ''Amount'', Col ''Description''],
             rows = map (\<lambda>r. [r ! 0, r ! 1, r ! 4]) tbl\<rparr>"
    unfolding normalize_wellsfargo_def drop_columns_def set_columns_def and_then_def Let_def
    using row by (simp add: upt_5 cong: map_cong) blast
  with rd show ?thesis by (simp add: and_then_def)
qed

theorem normalize_wellsfargo_format_C_witness:
  "and_then (read_csv example_lib wellsfargo_table) normalize_wellsfargo =
     Inr \<lparr>index = [0, 1],
          columns = [Col ''Date'', Col ''Amount'', Col ''Description''],
          rows = [[Str ''01/10/2023'', Num (Val (- 724 / 100)), Str ''Audible Amzn''],
                  [Str ''01/04/2023'', Num (Val (- 20636 / 100)), Str ''STATE FARM INSURANCE'']]\<rparr>"
  using normalize_wellsfargo_format_C [of wellsfargo_table example_lib]
  by (simp add: wellsfargo_table_def)

section \<open>Running the model on the example files\<close>

text \<open>
  The model is evaluated statement by statement: the continuation of a statement is only
  looked at once the statement has produced its value.
\<close>

lemma and_then_Inr_eval: "and_then (Inr x) f = f x"
  by (simp add: and_then_def)

lemma and_then_Inl_eval: "and_then (Inl e) f = Inl e"
  by (simp add: and_then_def)

lemma and_then_weak_cong: "m = m' \<Longrightarrow> and_then m f = and_then m' f"
  by simp

lemmas frame_defs = read_csv_def and_then_Inr_eval and_then_Inl_eval iloc0_def set_columns_def
  tail_rows_def drop_columns_def rename_def select_def getitem_def to_numeric_def to_numeric1_def
  setitem_def fillna_def fillna1_def add_items_def add1_def pick_def cell00_def Let_def


lemma decimal_abc: "decimal ''abc'' = None"
  by code_simp

lemma date_example: "month_day_year ''01/10/2023'' ''%m/%d/%Y''"
  by code_simp

lemma no_date_example: "\<not> month_day_year ''???'' ''%m/%d/%Y''"
  by code_simp


lemma for_body_wellsfargo:
  "for_body example_lib wellsfargo_file st =
     Inr (append_df st
       \<lparr>index = [0, 1],
        columns = [Col ''Date'', Col ''Amount'', Col ''Description''],
        rows = [[Str ''01/10/2023'', Num (Val (- 724 / 100)), Str ''Audible Amzn''],
                [Str ''01/04/2023'', Num (Val (- 20636 / 100)), Str ''STATE FARM INSURANCE'']]\<rparr>)"
  by (simp add: for_body_def wellsfargo_file_def wellsfargo_table_def try_wellsfargo_def
      normalize_wellsfargo_def frame_defs example_lib_def date_example cong: and_then_weak_cong)

lemma for_body_unknown:
  "for_body example_lib unknown_file st = Inr (print_unknown st ''notes.csv'')"
  by (simp add: for_body_def unknown_file_def try_wellsfargo_def
      frame_defs example_lib_def no_date_example cong: and_then_weak_cong)

lemma for_body_numeric:
  "for_body example_lib numeric_file st = Inl TypeError"
  by (simp add: for_body_def numeric_file_def try_wellsfargo_def
      frame_defs example_lib_def cong: and_then_weak_cong)

lemma for_body_bad_citi:
  "for_body example_lib bad_citi_file st = Inl ValueError"
  by (simp add: for_body_def bad_citi_file_def normalize_citi_def
      frame_defs example_lib_def decimal_abc cong: and_then_weak_cong)



lemma lookup_audible:
  "lookup literal (Str ''Audible Amzn'') example_rules = Inr (Str ''unknown'')"
  by code_simp

lemma lookup_state_farm:
  "lookup literal (Str ''STATE FARM INSURANCE'') example_rules = Inr (Str ''unknown'')"
  by code_simp

lemma np_nan_example: "np_nan example_lib = NaN"
  by (simp add: example_lib_def)

lemma re_compile_example: "re_compile example_lib = literal"
  by (simp add: example_lib_def)

lemmas run_defs = main_def append_df_def print_unknown_def pd_concat_def reindex_def
  categorize_def to_csv_def getitem_def setitem_def pick_def Let_def and_then_Inr_eval
  and_then_Inl_eval np_nan_example re_compile_example




lemma numeric_run:
  "main example_lib example_rules [numeric_file, wellsfargo_file] = ([], Inl TypeError)"
  by (simp add: main_def for_body_numeric)

lemma bad_citi_run:
  "main example_lib example_rules [bad_citi_file, wellsfargo_file] = ([], Inl ValueError)"
  by (simp add: main_def for_body_bad_citi)

lemma wellsfargo_run:
  "main example_lib example_rules [unknown_file, wellsfargo_file] =
     ([''Error: Unknown format from notes.csv''],
      Inr \<lparr>header = [Col ''Date'', Col ''Amount'', Col ''Description'', Col ''Category''],
           body =
             [[Str ''01/10/2023'', Num (Val (- 724 / 100)), Str ''Audible Amzn'', Str ''unknown''],
              [Str ''01/04/2023'', Num (Val (- 20636 / 100)), Str ''STATE FARM INSURANCE'',
               Str ''unknown'']]\<rparr>)"
  by (simp add: run_defs for_body_unknown for_body_wellsfargo
      lookup_audible lookup_state_farm cong: and_then_weak_cong)

lemma unknown_loop:
  "for_loop example_lib [unknown_file] \<lparr>transaction_dataframes = [], stdout = []\<rparr> =
     (\<lparr>transaction_dataframes = [], stdout = [''Error: Unknown format from notes.csv'']\<rparr>, None)"
  by (simp add: for_body_unknown print_unknown_def)

section \<open>Invariants of the tables of a run\<close>


lemma and_then_Inl: "and_then m f = Inl e \<longleftrightarrow> m = Inl e \<or> (\<exists>x. m = Inr x \<and> f x = Inl e)"
  by (cases m) (simp_all add: and_then_def)













lemma set_selected:
  "set ks \<subseteq> set ls \<Longrightarrow> set (concat (map (\<lambda>k. filter (\<lambda>l. l = k) ls) ks)) = set ks"
  by auto

lemma getitem_Inr: "getitem df k = Inr x \<Longrightarrow> k \<in> set (columns df)"
  by (auto simp: getitem_def Let_def count_list_0_iff split: if_splits)





























section \<open>The consolidated table\<close>



section \<open>The columns of the output\<close>




section \<open>A run in which no file is recognized\<close>

text \<open>
  Claim C10. When the loop over the files ends with no normalized table (every file was
  skipped as unrecognized), \<^verbatim>\<open>pd.concat\<close> raises ValueError on the empty list: the run ends
  with this exception, after the diagnostics, and writes no output.
\<close>

theorem no_table_no_output:
  assumes "files \<noteq> []"
    and "for_loop lib files \<lparr>transaction_dataframes = [], stdout = []\<rparr> = (st, None)"
    and "transaction_dataframes st = []"
  shows "pd_concat lib (transaction_dataframes st) = Inl ValueError
         \<and> main lib lookup_df files = (stdout st, Inl ValueError)"
  using assms by (simp add: main_def pd_concat_def and_then_def)

theorem no_table_no_output_witness:
  "pd_concat example_lib [] = Inl ValueError
   \<and> main example_lib example_rules [unknown_file] =
       ([''Error: Unknown format from notes.csv''], Inl ValueError)"
  using no_table_no_output [of "[unknown_file]" example_lib _ example_rules, OF _ unknown_loop]
  by simp

section \<open>Format detection and files that no detector recognizes\<close>

text \<open>
  Claim C2. The loop body tests the first cell against \<^verbatim>\<open>Status\<close>, then against
  \<^verbatim>\<open>Trans. Date\<close>, then hands it to \<^verbatim>\<open>strptime\<close>, and reports an unknown format when that
  raises ValueError. \<^verbatim>\<open>read_csv\<close> types the cells, and \<^verbatim>\<open>strptime\<close> raises TypeError on a
  cell that is no \<^verbatim>\<open>str\<close>: on a file whose first cell is a number the body does not classify
  the file as unrecognized, it raises TypeError.
\<close>

theorem detection_raises_on_number:
  "for_body example_lib numeric_file \<lparr>transaction_dataframes = [], stdout = []\<rparr> = Inl TypeError
   \<and> for_body example_lib unknown_file \<lparr>transaction_dataframes = [], stdout = []\<rparr> =
       Inr \<lparr>transaction_dataframes = [], stdout = [''Error: Unknown format from notes.csv'']\<rparr>"
  by (simp add: for_body_numeric for_body_unknown print_unknown_def)

text \<open>
  Claim C7. A file whose first cell is a string that is neither of the two header names
  nor a date is skipped with a diagnostic, and the files after it are processed. A file
  whose first cell is a number matches none of the three detectors either, but the run
  ends there with TypeError: no diagnostic, no output, and the files after it are not
  read.
\<close>

theorem unrecognized_number_ends_run:
  "main example_lib example_rules [numeric_file, wellsfargo_file] = ([], Inl TypeError)
   \<and> main example_lib example_rules [unknown_file, wellsfargo_file] =
     ([''Error: Unknown format from notes.csv''],
      Inr \<lparr>header = [Col ''Date'', Col ''Amount'', Col ''Description'', Col ''Category''],
           body =
             [[Str ''01/10/2023'', Num (Val (- 724 / 100)), Str ''Audible Amzn'', Str ''unknown''],
              [Str ''01/04/2023'', Num (Val (- 20636 / 100)), Str ''STATE FARM INSURANCE'',
               Str ''unknown'']]\<rparr>)"
  by (simp add: numeric_run wellsfargo_run)

end
